theory Spec2Isabelle
  imports Complex_Main "HOL-Library.Sublist" "HOL-Library.Product_Lexorder" "HOL-Library.AList"
begin

section \<open>The humidity pipeline (src/humidity\_pipeline.py)\<close>

text \<open>
  The pipeline is one class, \<open>HumidityProcessor\<close>, whose methods run in sequence:
  download, split by month, polygonize the land points, build tiles with an external
  tool, write a tile server configuration and a viewer page.

  Modelling decisions, all visible in the definitions below:
  \<^item> Python floats are modelled as exact reals; a missing value (NaN) in the humidity
    column is \<open>None\<close>. Rounding is not modelled.
  \<^item> A data frame with fixed columns is a list of records, one record per row.
  \<^item> The file system, the console and the list of spawned child processes form an
    explicit \<open>world\<close> that every method takes and returns.
  \<^item> The collaborators outside the repository are parameters: the remote store
    (an exception or a dataset), the land mask \<open>is_land\<close>, and the tiling tool.
  \<^item> An exception is a value of type \<open>exn\<close>; each \<open>try/except\<close> of the source is a
    case distinction.
  \<^item> Every \<open>print\<close> appends one \<open>event\<close> to the console; progress bars (tqdm) and the
    elapsed wall-clock time are not modelled.
\<close>

subsection \<open>Strings and paths\<close>

text \<open>Python's \<open>str.replace(old, new)\<close>: all non-overlapping occurrences, left to right.\<close>

function replace :: "string \<Rightarrow> string \<Rightarrow> string \<Rightarrow> string" where
  "replace old new [] = (if old = [] then new else [])"
| "replace old new (c # s) =
     (if old = [] then new @ c # replace old new s
      else if prefix old (c # s) then new @ replace old new (drop (length old) (c # s))
      else c # replace old new s)"
  by pat_completeness auto
termination
  by (relation "measure (\<lambda>(old, new, s). length s)") auto

text \<open>\<open>os.path.basename\<close>: everything after the last slash.\<close>

definition basename :: "string \<Rightarrow> string" where
  "basename p = rev (takeWhile (\<lambda>c. c \<noteq> CHR ''/'') (rev p))"

text \<open>\<open>os.path.join\<close> of two components (POSIX).\<close>

definition path_join :: "string \<Rightarrow> string \<Rightarrow> string" where
  "path_join a b =
     (if prefix ''/'' b then b
      else if a = [] \<or> suffix ''/'' a then a @ b
      else a @ ''/'' @ b)"

text \<open>Decimal formatting of a non-negative integer: \<open>f"{n}"\<close> and \<open>f"{n:02d}"\<close>.\<close>

definition digit_char :: "nat \<Rightarrow> char" where
  "digit_char d =
     (if d = 0 then CHR ''0'' else if d = 1 then CHR ''1'' else if d = 2 then CHR ''2''
      else if d = 3 then CHR ''3'' else if d = 4 then CHR ''4'' else if d = 5 then CHR ''5''
      else if d = 6 then CHR ''6'' else if d = 7 then CHR ''7'' else if d = 8 then CHR ''8''
      else CHR ''9'')"

fun str_nat :: "nat \<Rightarrow> string" where
  "str_nat n = (if n < 10 then [digit_char n] else str_nat (n div 10) @ [digit_char (n mod 10)])"

declare str_nat.simps [simp del]

definition fmt_02d :: "nat \<Rightarrow> string" where
  "fmt_02d n = (let s = str_nat n in replicate (2 - length s) CHR ''0'' @ s)"

subsection \<open>Data model\<close>

text \<open>A month-resolution timestamp; \<open>day_time\<close> stands for the day and time of day, which the
  pipeline never reads.\<close>

record timestamp =
  year :: nat
  month :: nat
  day_time :: nat

text \<open>One row of the flat table: the columns \<open>time\<close>, \<open>lat\<close>, \<open>lon\<close>, \<open>RH2M\<close>.\<close>

record sample =
  time :: timestamp
  lat :: real
  lon :: real
  RH2M :: "real option"

text \<open>A row after \<open>split_monthly_data\<close> has added the columns \<open>year\<close> and \<open>month\<close>.\<close>

record dated_sample = sample +
  year_col :: nat
  month_col :: nat

text \<open>One GeoJSON feature: the polygon's \<open>coordinates\<close> (a list of rings of
  \<open>[x, y]\<close> pairs) and the four properties. The constant \<open>"type"\<close> fields are left out.\<close>

record feature =
  coordinates :: "(real \<times> real) list list"
  prop_humidity :: real
  prop_time :: timestamp
  prop_lat :: real
  prop_lon :: real

text \<open>The tile server configuration: the constant options and the \<open>data\<close> dictionary,
  a Python dict in insertion order, each value being the \<open>"mbtiles"\<close> field of the entry.\<close>

record options =
  paths_root :: string
  paths_mbtiles :: string
  serveStaticMaps :: bool
  formatQuality_jpeg :: nat
  formatQuality_webp :: nat
  maxSize :: nat
  pbfAlias :: string

record config =
  options :: options
  data :: "(string \<times> string) list"

datatype content =
    Csv "sample list"
  | GeoJson "feature list"
  | ConfigJson config
  | ViewerHtml
  | Opaque nat

datatype exn = ValueError string | OtherError string

text \<open>The remote Zarr store once opened: its time axis, its grid axes and the variable.\<close>

record dataset =
  ds_time :: "timestamp list"
  ds_lat :: "real list"
  ds_lon :: "real list"
  ds_RH2M :: "timestamp \<Rightarrow> real \<Rightarrow> real \<Rightarrow> real option"

text \<open>The result of \<open>subprocess.run\<close> with captured output.\<close>

record completed_process =
  returncode :: int
  proc_stdout :: string
  stderr :: string

type_synonym fs = "string \<rightharpoonup> content"

text \<open>An external executable: given its argument vector and the file system it either
  cannot be started (an exception in the caller) or runs to completion and leaves a
  file system behind.\<close>

type_synonym tool = "string list \<Rightarrow> fs \<Rightarrow> exn + (completed_process \<times> fs)"

text \<open>One constructor for each \<open>print\<close> of the source, carrying the values it formats.\<close>

datatype event =
    Banner
  | Step1Header | OpeningStore | StoreOpened | FilteringTime | FoundTimestamps nat
  | Extracting | Cleaning | Cleaned nat nat | SavedMain string
  | ErrorDownloading exn | Traceback
  | Step2Header | CreatedMonthly nat
  | EmptyCsv string | InitialPoints nat | FilteringLand | NoLandPoints string
  | LandPoints nat nat | GridResolution real real | CreatedFeatures nat
  | ErrorGeojson string exn
  | TippecanoeFailed string | ErrorMbtiles exn
  | Step3Header | CreatedGeojsons nat
  | Step4Header | CreatedOne string | FailedOne string | CreatedMbtiles nat
  | Step5Header | CreatedConfig string
  | CreatedViewer
  | PipelineStart | PipelineFailed | PipelineComplete nat nat nat

record world =
  dirs :: "string list"
  files :: fs
  console :: "event list"
  spawned :: "string list list"

definition print :: "event list \<Rightarrow> world \<Rightarrow> world" where
  "print es w = w\<lparr>console := console w @ es\<rparr>"

definition write_file :: "string \<Rightarrow> content \<Rightarrow> world \<Rightarrow> world" where
  "write_file p c w = w\<lparr>files := (files w)(p \<mapsto> c)\<rparr>"

text \<open>\<open>os.makedirs(directory, exist_ok=True)\<close>.\<close>

definition makedirs :: "string \<Rightarrow> world \<Rightarrow> world" where
  "makedirs d w = (if d \<in> set (dirs w) then w else w\<lparr>dirs := dirs w @ [d]\<rparr>)"

text \<open>\<open>pd.read_csv\<close>: a missing or non-tabular file raises.\<close>

definition read_csv :: "string \<Rightarrow> world \<Rightarrow> exn + sample list" where
  "read_csv p w =
     (case files w p of
        Some (Csv rows) \<Rightarrow> Inr rows
      | _ \<Rightarrow> Inl (OtherError p))"

text \<open>\<open>Series.unique()\<close>: the distinct values in order of first appearance.\<close>

definition unique :: "'a list \<Rightarrow> 'a list" where
  "unique xs = rev (remdups (rev xs))"

text \<open>\<open>DataFrame.groupby(keys)\<close> (default \<open>sort=True\<close>): the groups in ascending key
  order, each holding its rows in their original order.\<close>

definition groupby :: "('r \<Rightarrow> 'k::linorder) \<Rightarrow> 'r list \<Rightarrow> ('k \<times> 'r list) list" where
  "groupby key df = map (\<lambda>k. (k, filter (\<lambda>r. key r = k) df)) (sort (unique (map key df)))"

subsection \<open>Configuration (\<open>__init__\<close>)\<close>

definition ZARR_URL :: string where
  "ZARR_URL = ''s3://nasa-power/merra2/temporal/power_merra2_monthly_temporal_utc.zarr''"

definition VARIABLE :: string where
  "VARIABLE = ''RH2M''"

definition OUTPUT_DIR :: string where
  "OUTPUT_DIR = ''humidity_data_output''"

definition MBTILES_DIR :: string where
  "MBTILES_DIR = ''humidity_mbtiles_output''"

definition init :: "world \<Rightarrow> world" where
  "init w = print [Banner] (makedirs MBTILES_DIR (makedirs OUTPUT_DIR w))"

subsection \<open>Stage 1: \<open>time_filter\<close> and \<open>download_humidity_data\<close>\<close>

definition time_filter :: "timestamp \<Rightarrow> bool" where
  "time_filter t =
     (let start_condition = (year t > 2021 \<or> (year t = 2022 \<and> month t \<ge> 1));
          end_condition = (year t < 2025 \<or> (year t = 2025 \<and> month t \<le> 5))
      in start_condition \<and> end_condition)"

text \<open>\<open>ds[VARIABLE].sel(time=filtered_times).to_dataframe().reset_index()\<close>: one row for
  each point of the selected times and the grid, in axis order.\<close>

definition to_dataframe :: "dataset \<Rightarrow> timestamp list \<Rightarrow> sample list" where
  "to_dataframe ds ts =
     concat (map (\<lambda>t. concat (map (\<lambda>la. map (\<lambda>lo.
       \<lparr>time = t, lat = la, lon = lo, RH2M = ds_RH2M ds t la lo\<rparr>) (ds_lon ds)) (ds_lat ds))) ts)"

text \<open>\<open>df.dropna(subset=[VARIABLE])\<close>.\<close>

definition dropna :: "sample list \<Rightarrow> sample list" where
  "dropna df = filter (\<lambda>r. RH2M r \<noteq> None) df"

text \<open>The method returns the table, or \<open>None\<close> after any exception; \<open>remote\<close> is what
  \<open>xr.open_dataset\<close> gives: an exception or the opened dataset.\<close>

definition download_humidity_data :: "exn + dataset \<Rightarrow> world \<Rightarrow> sample list option \<times> world" where
  "download_humidity_data remote w0 =
     (let w1 = print [Step1Header, OpeningStore] w0 in
      case remote of
        Inl e \<Rightarrow> (None, print [ErrorDownloading e, Traceback] w1)
      | Inr ds \<Rightarrow>
          let w2 = print [StoreOpened, FilteringTime] w1;
              filtered_times = filter time_filter (ds_time ds)
          in if filtered_times = []
             then (None, print [ErrorDownloading
                      (ValueError ''No matching data found for specified date range''), Traceback] w2)
             else
               let w3 = print [FoundTimestamps (length filtered_times), Extracting] w2;
                   df = to_dataframe ds filtered_times;
                   w4 = print [Cleaning] w3;
                   before = length df;
                   df = dropna df;
                   after = length df;
                   w5 = print [Cleaned before after] w4;
                   main_csv = path_join OUTPUT_DIR (VARIABLE @ ''_monthly_2022_2025.csv'');
                   w6 = write_file main_csv (Csv df) w5;
                   w7 = print [SavedMain main_csv] w6
               in (Some df, w7))"

subsection \<open>Stage 2: \<open>split_monthly_data\<close>\<close>

text \<open>\<open>df['year'] = ...; df['month'] = ...\<close>: the caller's frame gains two columns.\<close>

definition add_year_month :: "sample \<Rightarrow> dated_sample" where
  "add_year_month r =
     \<lparr>time = time r, lat = lat r, lon = lon r, RH2M = RH2M r,
      year_col = year (time r), month_col = month (time r)\<rparr>"

text \<open>\<open>group[['time', 'lat', 'lon', VARIABLE]].copy()\<close>.\<close>

definition select_columns :: "dated_sample \<Rightarrow> sample" where
  "select_columns r = \<lparr>time = time r, lat = lat r, lon = lon r, RH2M = RH2M r\<rparr>"

definition monthly_filename :: "nat \<times> nat \<Rightarrow> string" where
  "monthly_filename k = (case k of (y, m) \<Rightarrow>
     ''humidity_'' @ fmt_02d m @ ''_'' @ str_nat y @ ''.csv'')"

text \<open>The body of the \<open>for (year, month), group in df.groupby(...)\<close> loop.\<close>

fun split_loop ::
  "((nat \<times> nat) \<times> dated_sample list) list \<Rightarrow> string list \<Rightarrow> world \<Rightarrow> string list \<times> world" where
  "split_loop [] monthly_files w = (monthly_files, w)"
| "split_loop ((k, grp) # groups) monthly_files w =
     (let filename = monthly_filename k;
          filepath = path_join OUTPUT_DIR filename;
          monthly_data = map select_columns grp;
          w' = write_file filepath (Csv monthly_data) w
      in split_loop groups (monthly_files @ [filepath]) w')"

text \<open>Returns the list of files, the caller's frame as the method leaves it, and the world.\<close>

definition split_monthly_data ::
  "sample list \<Rightarrow> world \<Rightarrow> string list \<times> dated_sample list \<times> world" where
  "split_monthly_data df w0 =
     (let w1 = print [Step2Header] w0;
          df' = map add_year_month df;
          (monthly_files, w2) = split_loop (groupby (\<lambda>r. (year_col r, month_col r)) df') [] w1;
          w3 = print [CreatedMonthly (length monthly_files)] w2
      in (monthly_files, df', w3))"

subsection \<open>Stage 3: \<open>csv_to_geojson\<close> and \<open>create_geojsons\<close>\<close>

text \<open>Lines 157 to 170: the grid resolution from the sorted distinct coordinates.\<close>

definition resolution :: "real \<Rightarrow> real list \<Rightarrow> real" where
  "resolution fallback coords =
     (let unique_coords = sort (unique coords)
      in if length unique_coords > 1
         then \<bar>unique_coords ! 1 - unique_coords ! 0\<bar>
         else fallback)"

definition lat_res_of :: "sample list \<Rightarrow> real" where
  "lat_res_of df_land = resolution 0.5 (map lat df_land)"

definition lon_res_of :: "sample list \<Rightarrow> real" where
  "lon_res_of df_land = resolution 0.625 (map lon df_land)"

text \<open>Lines 185 to 210: the feature built for one row with humidity present.\<close>

definition make_feature :: "real \<Rightarrow> real \<Rightarrow> sample \<Rightarrow> real \<Rightarrow> feature" where
  "make_feature lat_res lon_res row humidity =
     (let half_lat = lat_res / 2;
          half_lon = lon_res / 2
      in \<lparr>coordinates = [[
             (lon row - half_lon, lat row - half_lat),
             (lon row + half_lon, lat row - half_lat),
             (lon row + half_lon, lat row + half_lat),
             (lon row - half_lon, lat row + half_lat),
             (lon row - half_lon, lat row - half_lat)]],
          prop_humidity = humidity,
          prop_time = time row,
          prop_lat = lat row,
          prop_lon = lon row\<rparr>)"

text \<open>Lines 175 to 211: the loop over \<open>df_land.iterrows()\<close>; a row with a missing value
  is skipped.\<close>

fun features_loop :: "real \<Rightarrow> real \<Rightarrow> sample list \<Rightarrow> feature list \<Rightarrow> feature list" where
  "features_loop lat_res lon_res [] features = features"
| "features_loop lat_res lon_res (row # rows) features =
     (case RH2M row of
        None \<Rightarrow> features_loop lat_res lon_res rows features
      | Some humidity \<Rightarrow>
          features_loop lat_res lon_res rows (features @ [make_feature lat_res lon_res row humidity]))"

definition csv_to_geojson ::
  "(real \<Rightarrow> real \<Rightarrow> bool) \<Rightarrow> string \<Rightarrow> string \<Rightarrow> world \<Rightarrow> bool \<times> world" where
  "csv_to_geojson is_land csv_file output_geojson w0 =
     (case read_csv csv_file w0 of
        Inl e \<Rightarrow> (False, print [ErrorGeojson csv_file e] w0)
      | Inr df \<Rightarrow>
          if df = [] then (False, print [EmptyCsv csv_file] w0)
          else
            let w1 = print [InitialPoints (length df), FilteringLand] w0;
                df_land = filter (\<lambda>r. is_land (lat r) (lon r)) df
            in if df_land = [] then (False, print [NoLandPoints csv_file] w1)
               else
                 let w2 = print [LandPoints (length df_land) (length df)] w1;
                     lat_res = lat_res_of df_land;
                     lon_res = lon_res_of df_land;
                     w3 = print [GridResolution lat_res lon_res] w2;
                     features = features_loop lat_res lon_res df_land [];
                     w4 = write_file output_geojson (GeoJson features) w3;
                     w5 = print [CreatedFeatures (length features)] w4
                 in (True, w5))"

definition geojson_path :: "string \<Rightarrow> string" where
  "geojson_path csv_file =
     (let base_name = replace ''.csv'' '''' (basename csv_file)
      in path_join OUTPUT_DIR (base_name @ ''_land.geojson''))"

fun geojsons_loop ::
  "(real \<Rightarrow> real \<Rightarrow> bool) \<Rightarrow> string list \<Rightarrow> string list \<Rightarrow> world \<Rightarrow> string list \<times> world" where
  "geojsons_loop is_land [] geojson_files w = (geojson_files, w)"
| "geojsons_loop is_land (csv_file # rest) geojson_files w =
     (let geojson_file = geojson_path csv_file;
          (ok, w') = csv_to_geojson is_land csv_file geojson_file w
      in geojsons_loop is_land rest (if ok then geojson_files @ [geojson_file] else geojson_files) w')"

definition create_geojsons ::
  "(real \<Rightarrow> real \<Rightarrow> bool) \<Rightarrow> string list \<Rightarrow> world \<Rightarrow> string list \<times> world" where
  "create_geojsons is_land monthly_files w0 =
     (let w1 = print [Step3Header] w0;
          (geojson_files, w2) = geojsons_loop is_land monthly_files [] w1;
          w3 = print [CreatedGeojsons (length geojson_files)] w2
      in (geojson_files, w3))"

subsection \<open>Stage 4: \<open>geojson_to_mbtiles_tippecanoe\<close> and \<open>create_mbtiles\<close>\<close>

text \<open>\<open>subprocess.run(cmd, capture_output=True, text=True)\<close>: the argument vector is
  recorded in \<open>spawned\<close>, then the executable runs on the file system.\<close>

definition subprocess_run :: "tool \<Rightarrow> string list \<Rightarrow> world \<Rightarrow> (exn + completed_process) \<times> world" where
  "subprocess_run t cmd w =
     (let w1 = w\<lparr>spawned := spawned w @ [cmd]\<rparr>
      in case t cmd (files w) of
           Inl e \<Rightarrow> (Inl e, w1)
         | Inr (result, fs') \<Rightarrow> (Inr result, w1\<lparr>files := fs'\<rparr>))"

definition tippecanoe_cmd :: "string \<Rightarrow> string \<Rightarrow> string list" where
  "tippecanoe_cmd geojson_file output_mbtiles =
     [''tippecanoe'',
      ''-o'', output_mbtiles,
      ''-z'', ''10'',
      ''-Z'', ''0'',
      ''--no-feature-limit'',
      ''--no-tile-size-limit'',
      ''-B0'',
      ''--drop-densest-as-needed'',
      ''--extend-zooms-if-still-dropping'',
      ''--force'',
      geojson_file]"

definition geojson_to_mbtiles_tippecanoe :: "tool \<Rightarrow> string \<Rightarrow> string \<Rightarrow> world \<Rightarrow> bool \<times> world" where
  "geojson_to_mbtiles_tippecanoe t geojson_file output_mbtiles w =
     (let cmd = tippecanoe_cmd geojson_file output_mbtiles
      in case subprocess_run t cmd w of
           (Inl e, w') \<Rightarrow> (False, print [ErrorMbtiles e] w')
         | (Inr result, w') \<Rightarrow>
             if returncode result = 0 then (True, w')
             else (False, print [TippecanoeFailed (stderr result)] w'))"

definition mbtiles_path :: "string \<Rightarrow> string" where
  "mbtiles_path geojson_file =
     (let base_name = replace ''_land.geojson'' '''' (basename geojson_file)
      in path_join MBTILES_DIR (base_name @ ''_land.mbtiles''))"

fun mbtiles_loop :: "tool \<Rightarrow> string list \<Rightarrow> string list \<Rightarrow> world \<Rightarrow> string list \<times> world" where
  "mbtiles_loop t [] mbtiles_files w = (mbtiles_files, w)"
| "mbtiles_loop t (geojson_file # rest) mbtiles_files w =
     (let base_name = replace ''_land.geojson'' '''' (basename geojson_file);
          mbtiles_file = mbtiles_path geojson_file;
          (ok, w') = geojson_to_mbtiles_tippecanoe t geojson_file mbtiles_file w
      in if ok
         then mbtiles_loop t rest (mbtiles_files @ [mbtiles_file]) (print [CreatedOne base_name] w')
         else mbtiles_loop t rest mbtiles_files (print [FailedOne base_name] w'))"

definition create_mbtiles :: "tool \<Rightarrow> string list \<Rightarrow> world \<Rightarrow> string list \<times> world" where
  "create_mbtiles t geojson_files w0 =
     (let w1 = print [Step4Header] w0;
          (mbtiles_files, w2) = mbtiles_loop t geojson_files [] w1;
          w3 = print [CreatedMbtiles (length mbtiles_files)] w2
      in (mbtiles_files, w3))"

subsection \<open>Stage 5: \<open>create_tileserver_config\<close>\<close>

definition config_options :: options where
  "config_options =
     \<lparr>paths_root = '''',
      paths_mbtiles = ''./'' @ MBTILES_DIR,
      serveStaticMaps = True,
      formatQuality_jpeg = 90,
      formatQuality_webp = 90,
      maxSize = 8192,
      pbfAlias = ''pbf''\<rparr>"

definition layer_name :: "string \<Rightarrow> string" where
  "layer_name mbtiles_file =
     (let base_name = replace ''_land.mbtiles'' '''' (basename mbtiles_file)
      in base_name @ ''_land'')"

text \<open>The loop \<open>config["data"][key] = {"mbtiles": ...}\<close>; assignment to a dict replaces
  the value of a key already present and appends a new key otherwise.\<close>

fun config_loop :: "string list \<Rightarrow> config \<Rightarrow> config" where
  "config_loop [] cfg = cfg"
| "config_loop (mbtiles_file # rest) cfg =
     config_loop rest
       (cfg\<lparr>data := AList.update (layer_name mbtiles_file) (basename mbtiles_file) (data cfg)\<rparr>)"

definition config_file_name :: string where
  "config_file_name = ''humidity-tileserver-config.json''"

definition create_tileserver_config :: "string list \<Rightarrow> world \<Rightarrow> string \<times> world" where
  "create_tileserver_config mbtiles_files w0 =
     (let w1 = print [Step5Header] w0;
          cfg = \<lparr>options = config_options, data = []\<rparr>;
          cfg = config_loop mbtiles_files cfg;
          config_file = config_file_name;
          w2 = write_file config_file (ConfigJson cfg) w1;
          w3 = print [CreatedConfig config_file] w2
      in (config_file, w3))"

subsection \<open>Stage 6 and the driver\<close>

definition create_web_viewer :: "world \<Rightarrow> world" where
  "create_web_viewer w = print [CreatedViewer] (write_file ''humidity-viewer.html'' ViewerHtml w)"

definition run_complete_pipeline ::
  "exn + dataset \<Rightarrow> (real \<Rightarrow> real \<Rightarrow> bool) \<Rightarrow> tool \<Rightarrow> world \<Rightarrow> world" where
  "run_complete_pipeline remote is_land t w0 =
     (let w1 = print [PipelineStart] w0
      in case download_humidity_data remote w1 of
           (None, w2) \<Rightarrow> print [PipelineFailed] w2
         | (Some df, w2) \<Rightarrow>
             let (monthly_files, df', w3) = split_monthly_data df w2;
                 (geojson_files, w4) = create_geojsons is_land monthly_files w3;
                 (mbtiles_files, w5) = create_mbtiles t geojson_files w4;
                 (config_file, w6) = create_tileserver_config mbtiles_files w5;
                 w7 = create_web_viewer w6
             in print [PipelineComplete (length monthly_files) (length geojson_files)
                         (length mbtiles_files)] w7)"

text \<open>The script's entry point: construct the processor, then run the pipeline.\<close>

definition main :: "exn + dataset \<Rightarrow> (real \<Rightarrow> real \<Rightarrow> bool) \<Rightarrow> tool \<Rightarrow> world \<Rightarrow> world" where
  "main remote is_land t w = run_complete_pipeline remote is_land t (init w)"

section \<open>Vocabulary of the specification\<close>

subsection \<open>Plane geometry of a polygon ring\<close>

type_synonym point = "real \<times> real"

text \<open>The closed segment from \<open>a\<close> to \<open>b\<close>.\<close>

definition on_segment :: "point \<Rightarrow> point \<Rightarrow> point \<Rightarrow> bool" where
  "on_segment p a b \<longleftrightarrow>
     (\<exists>t. 0 \<le> t \<and> t \<le> 1 \<and> p = (fst a + t * (fst b - fst a), snd a + t * (snd b - snd a)))"

definition edges :: "point list \<Rightarrow> (point \<times> point) list" where
  "edges ring = zip ring (tl ring)"

definition closed_ring :: "point list \<Rightarrow> bool" where
  "closed_ring ring \<longleftrightarrow> ring \<noteq> [] \<and> hd ring = last ring"

text \<open>A ring does not intersect itself when two of its edges meet only where consecutive
  edges share their vertex (the last edge and the first share the closing vertex).\<close>

definition simple_ring :: "point list \<Rightarrow> bool" where
  "simple_ring ring \<longleftrightarrow>
     (let es = edges ring; n = length es
      in \<forall>i<n. \<forall>j<n. i < j \<longrightarrow>
           (\<forall>p. on_segment p (fst (es ! i)) (snd (es ! i)) \<and>
                on_segment p (fst (es ! j)) (snd (es ! j)) \<longrightarrow>
                (j = i + 1 \<and> p = snd (es ! i)) \<or> (i = 0 \<and> j = n - 1 \<and> p = fst (es ! i))))"

text \<open>The shoelace formula: signed area (positive for a counterclockwise ring) and the
  centroid of the enclosed region.\<close>

definition cross :: "point \<times> point \<Rightarrow> real" where
  "cross e = (case e of ((x1, y1), (x2, y2)) \<Rightarrow> x1 * y2 - x2 * y1)"

definition signed_area :: "point list \<Rightarrow> real" where
  "signed_area ring = (\<Sum>e\<leftarrow>edges ring. cross e) / 2"

definition centroid :: "point list \<Rightarrow> point" where
  "centroid ring =
     (let a = signed_area ring
      in ((\<Sum>e\<leftarrow>edges ring. (fst (fst e) + fst (snd e)) * cross e) / (6 * a),
          (\<Sum>e\<leftarrow>edges ring. (snd (fst e) + snd (snd e)) * cross e) / (6 * a)))"

text \<open>The rectangle centred on \<open>(x, y)\<close> with half-width \<open>hw\<close> and half-height \<open>hh\<close>, as
  a ring of five vertices starting at its south-west corner.\<close>

definition rect :: "real \<Rightarrow> real \<Rightarrow> real \<Rightarrow> real \<Rightarrow> point list" where
  "rect x y hw hh =
     [(x - hw, y - hh), (x + hw, y - hh), (x + hw, y + hh), (x - hw, y + hh), (x - hw, y - hh)]"

subsection \<open>Grid spacing as the specification words it\<close>

text \<open>The absolute difference of the two smallest distinct coordinates when there are at
  least two, and a fixed default otherwise.\<close>

definition spacing_spec :: "real \<Rightarrow> real set \<Rightarrow> real" where
  "spacing_spec fallback S =
     (if card S \<ge> 2 then \<bar>Min (S - {Min S}) - Min S\<bar> else fallback)"

subsection \<open>Timestamps and the requested range\<close>

text \<open>A calendar month number.\<close>

definition valid_timestamp :: "timestamp \<Rightarrow> bool" where
  "valid_timestamp t \<longleftrightarrow> 1 \<le> month t \<and> month t \<le> 12"

text \<open>The inclusive range from January 2022 to May 2025, on \<open>(year, month)\<close> pairs in
  lexicographic order.\<close>

definition in_range :: "timestamp \<Rightarrow> bool" where
  "in_range t \<longleftrightarrow> (2022, 1) \<le> (year t, month t) \<and> (year t, month t) \<le> (2025, 5)"

subsection \<open>Month identifiers\<close>

text \<open>The base name shared by the files of one month: \<open>humidity_MM_YYYY\<close>.\<close>

definition month_id :: "nat \<times> nat \<Rightarrow> string" where
  "month_id k = (case k of (y, m) \<Rightarrow> ''humidity_'' @ fmt_02d m @ ''_'' @ str_nat y)"

section \<open>Example inputs\<close>

text \<open>A monthly table for June 2024 with one land sample carrying a value, one ocean
  sample and one land sample whose value is missing; the land mask of the example calls
  every point west of 50 degrees east land.\<close>

definition example_time :: timestamp where
  "example_time = \<lparr>year = 2024, month = 6, day_time = 0\<rparr>"

definition example_rows :: "sample list" where
  "example_rows =
     [\<lparr>time = example_time, lat = 10, lon = 20, RH2M = Some 75\<rparr>,
      \<lparr>time = example_time, lat = 0, lon = 60, RH2M = Some 80\<rparr>,
      \<lparr>time = example_time, lat = 11, lon = 22, RH2M = None\<rparr>]"

definition example_land :: "real \<Rightarrow> real \<Rightarrow> bool" where
  "example_land la lo = (lo < 50)"

definition example_world :: world where
  "example_world =
     \<lparr>dirs = [], files = [''m.csv'' \<mapsto> Csv example_rows], console = [], spawned = []\<rparr>"

text \<open>A world with nothing on disk, and three remote stores: one whose only in-range month
  holds no value at all, one with a month before the range and a month inside it, and one
  that ends before the range starts.\<close>

definition empty_world :: world where
  "empty_world = \<lparr>dirs = [], files = Map.empty, console = [], spawned = []\<rparr>"

definition nan_store :: dataset where
  "nan_store =
     \<lparr>ds_time = [\<lparr>year = 2022, month = 1, day_time = 0\<rparr>], ds_lat = [0], ds_lon = [0],
      ds_RH2M = (\<lambda>t la lo. None)\<rparr>"

definition example_store :: dataset where
  "example_store =
     \<lparr>ds_time = [\<lparr>year = 2021, month = 12, day_time = 0\<rparr>, \<lparr>year = 2022, month = 1, day_time = 0\<rparr>],
      ds_lat = [10], ds_lon = [20],
      ds_RH2M = (\<lambda>t la lo. if month t = 1 then Some 75 else Some 60)\<rparr>"

definition old_store :: dataset where
  "old_store =
     \<lparr>ds_time = [\<lparr>year = 2021, month = 12, day_time = 0\<rparr>], ds_lat = [10], ds_lon = [20],
      ds_RH2M = (\<lambda>t la lo. Some 60)\<rparr>"

text \<open>A tiling tool that is not installed: starting it raises.\<close>

definition absent_tool :: tool where
  "absent_tool cmd disk = Inl (OtherError ''tippecanoe: command not found'')"

text \<open>A tiling tool that rejects the document \<open>bad.geojson\<close> with exit status 1 and a
  diagnostic, and builds the archive named after \<open>-o\<close> for every other document.\<close>

definition flaky_tool :: tool where
  "flaky_tool cmd disk =
     (if last cmd = ''bad.geojson''
      then Inr (\<lparr>returncode = 1, proc_stdout = '''', stderr = ''cannot parse''\<rparr>, disk)
      else Inr (\<lparr>returncode = 0, proc_stdout = '''', stderr = ''''\<rparr>, disk(cmd ! 2 \<mapsto> Opaque 0)))"

section \<open>Verified properties\<close>

subsection \<open>Decimal formatting and file names\<close>

lemma digit_char_digit: "digit_char d \<in> set ''0123456789''"
  by (simp add: digit_char_def)

lemma digit_char_inj: "d < 10 \<Longrightarrow> d' < 10 \<Longrightarrow> digit_char d = digit_char d' \<Longrightarrow> d = d'"
  by (simp add: digit_char_def split: if_splits) arith

lemma digit_char_zero: "d < 10 \<Longrightarrow> digit_char d = CHR ''0'' \<Longrightarrow> d = 0"
  by (simp add: digit_char_def split: if_splits)

lemma str_nat_digits: "set (str_nat n) \<subseteq> set ''0123456789''"
proof (induction n rule: str_nat.induct)
  case (1 n)
  show ?case
  proof (cases "n < 10")
    case True
    then show ?thesis using digit_char_digit[of n] by (subst str_nat.simps) simp
  next
    case False
    with 1 digit_char_digit[of "n mod 10"] show ?thesis by (subst str_nat.simps) simp
  qed
qed

lemma str_nat_nonempty: "str_nat n \<noteq> []"
  by (subst str_nat.simps) simp

lemma str_nat_length_ge2: "10 \<le> n \<Longrightarrow> 2 \<le> length (str_nat n)"
  using str_nat_nonempty[of "n div 10"]
  by (subst str_nat.simps) (cases "str_nat (n div 10)"; simp)

lemma str_nat_small: "n < 10 \<Longrightarrow> str_nat n = [digit_char n]"
  by (subst str_nat.simps) simp

lemma str_nat_big: "\<not> n < 10 \<Longrightarrow> str_nat n = str_nat (n div 10) @ [digit_char (n mod 10)]"
  by (subst str_nat.simps) simp

lemma str_nat_inj: "str_nat n = str_nat m \<Longrightarrow> n = m"
proof (induction n arbitrary: m rule: str_nat.induct)
  case (1 n)
  note eq = \<open>str_nat n = str_nat m\<close>
  show ?case
  proof (cases "n < 10")
    case n: True
    show ?thesis
    proof (cases "m < 10")
      case True
      from eq have "[digit_char n] = [digit_char m]"
        by (simp only: str_nat_small[OF n] str_nat_small[OF True])
      then have "digit_char n = digit_char m" by simp
      with n True show ?thesis by (rule digit_char_inj)
    next
      case False
      then have "2 \<le> length (str_nat m)" by (simp add: str_nat_length_ge2)
      moreover have "length (str_nat n) = 1" by (simp only: str_nat_small[OF n] list.size)
      ultimately show ?thesis by (simp only: eq)
    qed
  next
    case n: False
    show ?thesis
    proof (cases "m < 10")
      case True
      from n have "2 \<le> length (str_nat n)" by (simp add: str_nat_length_ge2)
      moreover have "length (str_nat m) = 1" by (simp only: str_nat_small[OF True] list.size)
      ultimately show ?thesis by (simp only: eq)
    next
      case False
      from eq have "str_nat (n div 10) @ [digit_char (n mod 10)] =
                    str_nat (m div 10) @ [digit_char (m mod 10)]"
        by (simp only: str_nat_big[OF n] str_nat_big[OF False])
      then have e: "str_nat (n div 10) = str_nat (m div 10)"
        "digit_char (n mod 10) = digit_char (m mod 10)"
        by simp_all
      from "1.IH"[OF n e(1)] have d: "n div 10 = m div 10" .
      have "n mod 10 < 10" "m mod 10 < 10" by simp_all
      from digit_char_inj[OF this e(2)] have r: "n mod 10 = m mod 10" .
      have "n = 10 * (n div 10) + n mod 10" "m = 10 * (m div 10) + m mod 10"
        by simp_all
      with d r show ?thesis by simp
    qed
  qed
qed

lemma str_nat_hd: "0 < n \<Longrightarrow> hd (str_nat n) \<noteq> CHR ''0''"
proof (induction n rule: str_nat.induct)
  case (1 n)
  show ?case
  proof (cases "n < 10")
    case True
    with 1(2) digit_char_zero[of n] show ?thesis by (auto simp: str_nat.simps[of n])
  next
    case False
    then have "0 < n div 10" by simp
    with 1(1)[OF False] have "hd (str_nat (n div 10)) \<noteq> CHR ''0''" by simp
    with False str_nat_nonempty[of "n div 10"] show ?thesis
      by (simp add: str_nat.simps[of n])
  qed
qed

lemma fmt_02d_eq: "fmt_02d n = (if n < 10 then [CHR ''0'', digit_char n] else str_nat n)"
proof (cases "n < 10")
  case True
  then show ?thesis by (simp add: fmt_02d_def str_nat.simps[of n])
next
  case False
  then have "2 \<le> length (str_nat n)" by (simp add: str_nat_length_ge2)
  with False show ?thesis by (simp add: fmt_02d_def)
qed

lemma fmt_02d_digits: "set (fmt_02d n) \<subseteq> set ''0123456789''"
  using str_nat_digits[of n] digit_char_digit[of n] by (simp add: fmt_02d_eq)

lemma str_nat_avoid: "c \<notin> set ''0123456789'' \<Longrightarrow> c \<notin> set (str_nat n)"
  using str_nat_digits[of n] by blast

lemma fmt_02d_avoid: "c \<notin> set ''0123456789'' \<Longrightarrow> c \<notin> set (fmt_02d n)"
  using fmt_02d_digits[of n] by blast

lemma fmt_02d_nonempty: "fmt_02d n \<noteq> []"
  by (simp add: fmt_02d_eq str_nat_nonempty)

lemma fmt_02d_inj: "fmt_02d n = fmt_02d m \<Longrightarrow> n = m"
proof -
  assume e: "fmt_02d n = fmt_02d m"
  have clash: False if "a < 10" "\<not> b < 10" "[CHR ''0'', digit_char a] = str_nat b" for a b
  proof -
    from that(2) have "0 < b" by simp
    from str_nat_hd[OF this] that(3)[symmetric] show False by simp
  qed
  show ?thesis
  proof (cases "n < 10"; cases "m < 10")
    assume nm: "n < 10" "m < 10"
    with e have "digit_char n = digit_char m" by (simp add: fmt_02d_eq)
    with nm show ?thesis by (rule digit_char_inj)
  next
    assume "n < 10" "\<not> m < 10"
    with e clash[of n m] show ?thesis by (simp add: fmt_02d_eq)
  next
    assume "\<not> n < 10" "m < 10"
    with e clash[of m n] show ?thesis by (simp add: fmt_02d_eq)
  next
    assume "\<not> n < 10" "\<not> m < 10"
    with e have "str_nat n = str_nat m" by (simp add: fmt_02d_eq)
    then show ?thesis by (rule str_nat_inj)
  qed
qed

lemma split_at_separator:
  assumes "xs @ c # ys = xs' @ c # ys'" "c \<notin> set xs" "c \<notin> set xs'"
  shows "xs = xs' \<and> ys = ys'"
  using assms
proof (induction xs arbitrary: xs')
  case Nil
  then show ?case by (cases xs') auto
next
  case (Cons a xs)
  then show ?case by (cases xs') auto
qed

lemma month_id_inj: "month_id k = month_id k' \<Longrightarrow> k = k'"
proof -
  assume e: "month_id k = month_id k'"
  obtain y m y' m' where k: "k = (y, m)" "k' = (y', m')" by (cases k; cases k') auto
  from e k have "fmt_02d m @ CHR ''_'' # str_nat y = fmt_02d m' @ CHR ''_'' # str_nat y'"
    by (simp add: month_id_def)
  moreover have "CHR ''_'' \<notin> set (fmt_02d m)" "CHR ''_'' \<notin> set (fmt_02d m')"
    by (simp_all add: fmt_02d_avoid)
  ultimately have "fmt_02d m = fmt_02d m' \<and> str_nat y = str_nat y'"
    by (rule split_at_separator)
  then have "m = m'" "y = y'" by (blast dest: fmt_02d_inj str_nat_inj)+
  with k show ?thesis by simp
qed

lemma not_suffix_OUTPUT_DIR: "\<not> suffix ''/'' OUTPUT_DIR"
  by (simp add: suffix_to_prefix OUTPUT_DIR_def)

lemma not_suffix_MBTILES_DIR: "\<not> suffix ''/'' MBTILES_DIR"
  by (simp add: suffix_to_prefix MBTILES_DIR_def)

lemma path_join_OUTPUT_DIR: "\<not> prefix ''/'' b \<Longrightarrow> path_join OUTPUT_DIR b = OUTPUT_DIR @ ''/'' @ b"
  using not_suffix_OUTPUT_DIR by (simp add: path_join_def) (simp add: OUTPUT_DIR_def)

lemma path_join_MBTILES_DIR: "\<not> prefix ''/'' b \<Longrightarrow> path_join MBTILES_DIR b = MBTILES_DIR @ ''/'' @ b"
  using not_suffix_MBTILES_DIR by (simp add: path_join_def) (simp add: MBTILES_DIR_def)

lemma basename_join: "CHR ''/'' \<notin> set b \<Longrightarrow> basename (a @ ''/'' @ b) = b"
proof -
  assume "CHR ''/'' \<notin> set b"
  then have "takeWhile (\<lambda>c. c \<noteq> CHR ''/'') (rev b @ CHR ''/'' # rev a) = rev b"
    by (subst takeWhile_append2) auto
  then show ?thesis by (simp add: basename_def)
qed

lemma month_id_avoid:
  "c \<notin> set ''humidity_'' \<Longrightarrow> c \<notin> set ''0123456789'' \<Longrightarrow> c \<notin> set (month_id k)"
proof -
  assume h: "c \<notin> set ''humidity_''" and d: "c \<notin> set ''0123456789''"
  obtain y m where k: "k = (y, m)" by (cases k)
  from d have "c \<notin> set (fmt_02d m)" "c \<notin> set (str_nat y)"
    by (rule fmt_02d_avoid, rule str_nat_avoid)
  with h show ?thesis by (simp add: k month_id_def)
qed

lemma month_id_no_slash_prefix: "\<not> prefix ''/'' (month_id k @ ext)"
  by (cases k) (simp add: month_id_def)

lemma replace_skip:
  "p \<notin> set xs \<Longrightarrow> replace (p # ps) new (xs @ s) = xs @ replace (p # ps) new s"
  by (induction xs) auto

lemma replace_sep:
  "x \<noteq> q \<Longrightarrow> replace (p # q # ps) new (p # x # s) = p # replace (p # q # ps) new (x # s)"
  by simp

lemma replace_self: "replace (p # ps) new (p # ps) = new"
  by simp

lemma replace_sep_digits:
  assumes "q \<notin> set ''0123456789''" "ds \<noteq> []" "set ds \<subseteq> set ''0123456789''"
  shows "replace (CHR ''_'' # q # ps) new (CHR ''_'' # ds @ s) =
           CHR ''_'' # ds @ replace (CHR ''_'' # q # ps) new s"
proof -
  from assms(2) obtain d ds' where ds: "ds = d # ds'" by (cases ds) auto
  with assms(1,3) have "d \<noteq> q" by auto
  have us: "CHR ''_'' \<notin> set ds" using assms(3) by auto
  have "replace (CHR ''_'' # q # ps) new (CHR ''_'' # ds @ s) =
          CHR ''_'' # replace (CHR ''_'' # q # ps) new (ds @ s)"
    unfolding ds append_Cons by (rule replace_sep[OF \<open>d \<noteq> q\<close>])
  also have "replace (CHR ''_'' # q # ps) new (ds @ s) = ds @ replace (CHR ''_'' # q # ps) new s"
    by (rule replace_skip[OF us])
  finally show ?thesis .
qed

lemma replace_month_id:
  assumes "q \<notin> set ''0123456789''"
  shows "replace (CHR ''_'' # q # ps) [] (month_id k @ CHR ''_'' # q # ps) = month_id k"
proof -
  obtain y m where k: "k = (y, m)" by (cases k)
  let ?old = "CHR ''_'' # q # ps"
  have m: "month_id k @ ?old = ''humidity'' @ (CHR ''_'' # fmt_02d m @ (CHR ''_'' # str_nat y @ ?old))"
    by (simp add: k month_id_def)
  have "replace ?old [] (month_id k @ ?old) =
          ''humidity'' @ replace ?old [] (CHR ''_'' # fmt_02d m @ (CHR ''_'' # str_nat y @ ?old))"
    unfolding m by (rule replace_skip) simp
  also have "replace ?old [] (CHR ''_'' # fmt_02d m @ (CHR ''_'' # str_nat y @ ?old)) =
               CHR ''_'' # fmt_02d m @ replace ?old [] (CHR ''_'' # str_nat y @ ?old)"
    by (rule replace_sep_digits[OF assms fmt_02d_nonempty fmt_02d_digits])
  also have "replace ?old [] (CHR ''_'' # str_nat y @ ?old) = CHR ''_'' # str_nat y @ replace ?old [] ?old"
    by (rule replace_sep_digits[OF assms str_nat_nonempty str_nat_digits])
  also have "replace ?old [] ?old = []" by (rule replace_self)
  finally show ?thesis by (simp add: k month_id_def del: replace.simps)
qed

lemma replace_csv_month_id: "replace ''.csv'' [] (month_id k @ ''.csv'') = month_id k"
proof -
  have "CHR ''.'' \<notin> set (month_id k)" by (rule month_id_avoid) simp_all
  from replace_skip[OF this, of "''csv''" "[]" "''.csv''"] show ?thesis
    by (simp del: replace.simps add: replace_self)
qed

lemma monthly_filename_eq: "monthly_filename k = month_id k @ ''.csv''"
  by (cases k) (simp add: monthly_filename_def month_id_def)

lemma no_slash_month_file:
  assumes "CHR ''/'' \<notin> set ext"
  shows "CHR ''/'' \<notin> set (month_id k @ ext)"
proof -
  have "CHR ''/'' \<notin> set (month_id k)" by (rule month_id_avoid) simp_all
  with assms show ?thesis by simp
qed

lemma basename_in_OUTPUT_DIR:
  assumes "CHR ''/'' \<notin> set ext"
  shows "basename (path_join OUTPUT_DIR (month_id k @ ext)) = month_id k @ ext"
  unfolding path_join_OUTPUT_DIR[OF month_id_no_slash_prefix]
  by (rule basename_join) (rule no_slash_month_file[OF assms])

lemma basename_in_MBTILES_DIR:
  assumes "CHR ''/'' \<notin> set ext"
  shows "basename (path_join MBTILES_DIR (month_id k @ ext)) = month_id k @ ext"
  unfolding path_join_MBTILES_DIR[OF month_id_no_slash_prefix]
  by (rule basename_join) (rule no_slash_month_file[OF assms])

lemma geojson_path_month:
  "geojson_path (path_join OUTPUT_DIR (monthly_filename k)) =
     path_join OUTPUT_DIR (month_id k @ ''_land.geojson'')"
proof -
  have "basename (path_join OUTPUT_DIR (month_id k @ ''.csv'')) = month_id k @ ''.csv''"
    by (rule basename_in_OUTPUT_DIR) simp
  then show ?thesis
    by (simp only: geojson_path_def Let_def monthly_filename_eq replace_csv_month_id)
qed

lemma mbtiles_path_month:
  "mbtiles_path (path_join OUTPUT_DIR (month_id k @ ''_land.geojson'')) =
     path_join MBTILES_DIR (month_id k @ ''_land.mbtiles'')"
proof -
  have "basename (path_join OUTPUT_DIR (month_id k @ ''_land.geojson'')) = month_id k @ ''_land.geojson''"
    by (rule basename_in_OUTPUT_DIR) simp
  moreover have "replace ''_land.geojson'' [] (month_id k @ ''_land.geojson'') = month_id k"
    using replace_month_id[of "CHR ''l''" "''and.geojson''" k] by (simp del: replace.simps)
  ultimately show ?thesis
    by (simp only: mbtiles_path_def Let_def)
qed

lemma basename_mbtiles_month:
  "basename (path_join MBTILES_DIR (month_id k @ ''_land.mbtiles'')) = month_id k @ ''_land.mbtiles''"
  by (rule basename_in_MBTILES_DIR) simp

lemma layer_name_month:
  "layer_name (path_join MBTILES_DIR (month_id k @ ''_land.mbtiles'')) = month_id k @ ''_land''"
proof -
  have "replace ''_land.mbtiles'' [] (month_id k @ ''_land.mbtiles'') = month_id k"
    using replace_month_id[of "CHR ''l''" "''and.mbtiles''" k] by (simp del: replace.simps)
  then show ?thesis
    by (simp only: layer_name_def Let_def basename_mbtiles_month)
qed

lemma csv_path_inj:
  "path_join OUTPUT_DIR (monthly_filename k) = path_join OUTPUT_DIR (monthly_filename k') \<Longrightarrow> k = k'"
proof -
  assume "path_join OUTPUT_DIR (monthly_filename k) = path_join OUTPUT_DIR (monthly_filename k')"
  then have "month_id k @ ''.csv'' = month_id k' @ ''.csv''"
    unfolding monthly_filename_eq path_join_OUTPUT_DIR[OF month_id_no_slash_prefix] by simp
  then have "month_id k = month_id k'" by simp
  then show ?thesis by (rule month_id_inj)
qed

lemma layer_key_inj: "month_id k @ ''_land'' = month_id k' @ ''_land'' \<Longrightarrow> k = k'"
  by (rule month_id_inj) simp

subsection \<open>Rectangles\<close>

lemma signed_area_rect: "signed_area (rect x y hw hh) = 4 * hw * hh"
  by (simp add: signed_area_def rect_def edges_def cross_def algebra_simps)

lemma centroid_rect: "hw > 0 \<Longrightarrow> hh > 0 \<Longrightarrow> centroid (rect x y hw hh) = (x, y)"
  unfolding centroid_def Let_def signed_area_rect
  by (simp add: rect_def edges_def cross_def field_simps)

lemma on_segment_horizontal:
  assumes "on_segment p (a, c) (b, c)"
  shows "snd p = c \<and> min a b \<le> fst p \<and> fst p \<le> max a b"
proof -
  from assms obtain t where t: "0 \<le> t" "t \<le> 1" and p: "p = (a + t * (b - a), c)"
    by (auto simp: on_segment_def)
  have "a + t * (b - a) = (1 - t) * a + t * b" by (simp add: algebra_simps)
  moreover have "(1 - t) * a + t * b \<le> (1 - t) * max a b + t * max a b"
    using t by (intro add_mono mult_left_mono) auto
  moreover have "(1 - t) * min a b + t * min a b \<le> (1 - t) * a + t * b"
    using t by (intro add_mono mult_left_mono) auto
  ultimately show ?thesis using p by (simp add: algebra_simps)
qed

lemma on_segment_vertical:
  assumes "on_segment p (c, a) (c, b)"
  shows "fst p = c \<and> min a b \<le> snd p \<and> snd p \<le> max a b"
proof -
  from assms obtain t where t: "0 \<le> t" "t \<le> 1" and p: "p = (c, a + t * (b - a))"
    by (auto simp: on_segment_def)
  have "a + t * (b - a) = (1 - t) * a + t * b" by (simp add: algebra_simps)
  moreover have "(1 - t) * a + t * b \<le> (1 - t) * max a b + t * max a b"
    using t by (intro add_mono mult_left_mono) auto
  moreover have "(1 - t) * min a b + t * min a b \<le> (1 - t) * a + t * b"
    using t by (intro add_mono mult_left_mono) auto
  ultimately show ?thesis using p by (simp add: algebra_simps)
qed

lemma simple_rect:
  assumes "hw > 0" "hh > 0"
  shows "simple_ring (rect x y hw hh)"
proof -
  define es where "es = edges (rect x y hw hh)"
  have len: "length es = 4"
    and n: "es ! 0 = ((x - hw, y - hh), (x + hw, y - hh))"
           "es ! Suc 0 = ((x + hw, y - hh), (x + hw, y + hh))"
           "es ! 2 = ((x + hw, y + hh), (x - hw, y + hh))"
           "es ! 3 = ((x - hw, y + hh), (x - hw, y - hh))"
    by (simp_all add: es_def edges_def rect_def numeral_2_eq_2 numeral_3_eq_3)
  have e0: "on_segment p (x - hw, y - hh) (x + hw, y - hh) \<Longrightarrow>
              snd p = y - hh \<and> x - hw \<le> fst p \<and> fst p \<le> x + hw" for p
    using on_segment_horizontal[of p "x - hw" "y - hh" "x + hw"] assms by simp
  have e1: "on_segment p (x + hw, y - hh) (x + hw, y + hh) \<Longrightarrow>
              fst p = x + hw \<and> y - hh \<le> snd p \<and> snd p \<le> y + hh" for p
    using on_segment_vertical[of p "x + hw" "y - hh" "y + hh"] assms by simp
  have e2: "on_segment p (x + hw, y + hh) (x - hw, y + hh) \<Longrightarrow>
              snd p = y + hh \<and> x - hw \<le> fst p \<and> fst p \<le> x + hw" for p
    using on_segment_horizontal[of p "x + hw" "y + hh" "x - hw"] assms by simp
  have e3: "on_segment p (x - hw, y + hh) (x - hw, y - hh) \<Longrightarrow>
              fst p = x - hw \<and> y - hh \<le> snd p \<and> snd p \<le> y + hh" for p
    using on_segment_vertical[of p "x - hw" "y + hh" "y - hh"] assms by simp
  have "(j = i + 1 \<and> p = snd (es ! i)) \<or> (i = 0 \<and> j = length es - 1 \<and> p = fst (es ! i))"
    if ij: "i < length es" "j < length es" "i < j"
      and si: "on_segment p (fst (es ! i)) (snd (es ! i))"
      and sj: "on_segment p (fst (es ! j)) (snd (es ! j))" for i j p
  proof -
    from ij len consider "i = 0 \<and> j = 1" | "i = 0 \<and> j = 2" | "i = 0 \<and> j = 3"
      | "i = 1 \<and> j = 2" | "i = 1 \<and> j = 3" | "i = 2 \<and> j = 3"
      by arith
    then show ?thesis
    proof cases
      case 1 with si sj e0[of p] e1[of p] show ?thesis by (cases p) (simp add: n len)
    next
      case 2 with si sj e0[of p] e2[of p] assms show ?thesis by (cases p) (simp add: n len)
    next
      case 3 with si sj e0[of p] e3[of p] show ?thesis by (cases p) (simp add: n len)
    next
      case 4 with si sj e1[of p] e2[of p] show ?thesis by (cases p) (simp add: n len)
    next
      case 5 with si sj e1[of p] e3[of p] assms show ?thesis by (cases p) (simp add: n len)
    next
      case 6 with si sj e2[of p] e3[of p] show ?thesis by (cases p) (simp add: n len)
    qed
  qed
  then show ?thesis
    unfolding simple_ring_def Let_def es_def[symmetric] by blast
qed

subsection \<open>The polygonizer\<close>

lemma features_loop_eq:
  "features_loop lat_res lon_res rows acc =
     acc @ map (\<lambda>r. make_feature lat_res lon_res r (the (RH2M r))) (filter (\<lambda>r. RH2M r \<noteq> None) rows)"
  by (induction rows arbitrary: acc) (auto split: option.splits)

lemma csv_to_geojson_land:
  assumes "read_csv csv_file w = Inr df"
      and "df_land = filter (\<lambda>r. is_land (lat r) (lon r)) df"
      and "df_land \<noteq> []"
  shows "fst (csv_to_geojson is_land csv_file out w) = True"
    and "files (snd (csv_to_geojson is_land csv_file out w)) =
           (files w)(out \<mapsto> GeoJson (features_loop (lat_res_of df_land) (lon_res_of df_land) df_land []))"
proof -
  from assms have "df \<noteq> []" by auto
  with assms show "fst (csv_to_geojson is_land csv_file out w) = True"
    by (simp add: csv_to_geojson_def Let_def)
  from assms \<open>df \<noteq> []\<close>
  show "files (snd (csv_to_geojson is_land csv_file out w)) =
           (files w)(out \<mapsto> GeoJson (features_loop (lat_res_of df_land) (lon_res_of df_land) df_land []))"
    by (simp add: csv_to_geojson_def Let_def print_def write_file_def)
qed

lemma distinct_unique: "distinct (unique xs)"
  by (simp add: unique_def)

lemma set_unique: "set (unique xs) = set xs"
  by (simp add: unique_def)

lemma resolution_pos:
  assumes "0 < d"
  shows "0 < resolution d coords"
proof (cases "length (sort (unique coords)) > 1")
  case True
  have "distinct (sort (unique coords))" by (simp add: distinct_unique)
  from nth_eq_iff_index_eq[OF this, of 1 0] True
  have "sort (unique coords) ! 1 \<noteq> sort (unique coords) ! 0"
    by (cases "unique coords") simp_all
  with True show ?thesis by (simp add: resolution_def Let_def)
next
  case False
  with assms show ?thesis by (simp add: resolution_def Let_def)
qed

lemma two_smallest:
  fixes xs :: "real list"
  assumes "sorted xs" "distinct xs" "length xs > 1"
  shows "xs ! 0 = Min (set xs)" and "xs ! 1 = Min (set xs - {Min (set xs)})"
proof -
  from assms(3) obtain a b rest where xs: "xs = a # b # rest"
    by (cases xs; cases "tl xs") auto
  from assms(1,2) xs have ab: "a < b" and rest: "\<forall>z\<in>set rest. b < z"
    by (auto simp: less_le)
  have m: "Min (set xs) = a"
    using xs ab rest by (intro Min_eqI) auto
  then show "xs ! 0 = Min (set xs)" using xs by simp
  have "set xs - {a} = insert b (set rest)"
    using xs ab rest by auto
  moreover have "Min (insert b (set rest)) = b"
    using rest by (intro Min_eqI) auto
  ultimately show "xs ! 1 = Min (set xs - {Min (set xs)})"
    using m xs by simp
qed

lemma resolution_spec: "resolution d coords = spacing_spec d (set coords)"
proof -
  let ?u = "sort (unique coords)"
  have len: "length ?u = card (set coords)"
    using distinct_card[of "unique coords"] by (simp add: distinct_unique set_unique)
  have s: "set ?u = set coords" by (simp add: set_unique)
  show ?thesis
  proof (cases "length ?u > 1")
    case True
    have "?u ! 0 = Min (set ?u)" "?u ! 1 = Min (set ?u - {Min (set ?u)})"
      using two_smallest[of ?u] True by (simp_all add: distinct_unique)
    with True len s show ?thesis
      by (simp add: resolution_def spacing_spec_def Let_def)
  next
    case False
    with len show ?thesis by (simp add: resolution_def spacing_spec_def Let_def)
  qed
qed

lemma rect_of_make_feature:
  "coordinates (make_feature lat_res lon_res r h) = [rect (lon r) (lat r) (lon_res / 2) (lat_res / 2)]"
  by (simp add: make_feature_def rect_def Let_def)

lemma lat_res_pos: "0 < lat_res_of df_land"
  by (simp add: lat_res_of_def resolution_pos)

lemma lon_res_pos: "0 < lon_res_of df_land"
  by (simp add: lon_res_of_def resolution_pos)

subsection \<open>The example table\<close>

lemma example_read: "read_csv ''m.csv'' example_world = Inr example_rows"
  by (simp add: read_csv_def example_world_def)

lemma example_df_land:
  "filter (\<lambda>r. example_land (lat r) (lon r)) example_rows =
     [\<lparr>time = example_time, lat = 10, lon = 20, RH2M = Some 75\<rparr>,
      \<lparr>time = example_time, lat = 11, lon = 22, RH2M = None\<rparr>]"
  by (simp add: example_rows_def example_land_def)

lemma example_res:
  "lat_res_of [\<lparr>time = example_time, lat = 10, lon = 20, RH2M = Some 75\<rparr>,
      \<lparr>time = example_time, lat = 11, lon = 22, RH2M = None\<rparr>] = 1"
  "lon_res_of [\<lparr>time = example_time, lat = 10, lon = 20, RH2M = Some 75\<rparr>,
      \<lparr>time = example_time, lat = 11, lon = 22, RH2M = None\<rparr>] = 2"
  by (simp_all add: lat_res_of_def lon_res_of_def resolution_def unique_def Let_def)

lemma example_emitting:
  "filter (\<lambda>r. RH2M r \<noteq> None)
     [\<lparr>time = example_time, lat = 10, lon = 20, RH2M = Some 75\<rparr>,
      \<lparr>time = example_time, lat = 11, lon = 22, RH2M = None\<rparr>] =
     [\<lparr>time = example_time, lat = 10, lon = 20, RH2M = Some 75\<rparr>]"
  by simp

lemma example_doc:
  "files (snd (csv_to_geojson example_land ''m.csv'' ''m.geojson'' example_world)) ''m.geojson'' =
     Some (GeoJson [\<lparr>coordinates = [[(19, 19 / 2), (21, 19 / 2), (21, 21 / 2), (19, 21 / 2), (19, 19 / 2)]],
                     prop_humidity = 75, prop_time = example_time, prop_lat = 10, prop_lon = 20\<rparr>])"
  using csv_to_geojson_land(2)[OF example_read example_df_land[symmetric], of "''m.geojson''"]
  by (simp add: example_res make_feature_def Let_def)

subsection \<open>Claims about the polygonizer\<close>

text \<open>
  Claim C1. Whenever a monthly table has a land row, \<open>csv_to_geojson\<close> succeeds and writes
  one document whose features correspond one to one, in order, to the land rows with a
  humidity value (\<open>emitting\<close>); rows with a missing value and ocean rows contribute
  nothing. The polygon of each feature is a single ring of five vertices, the rectangle
  with corners at \<open>(lon \<plusminus> lon_res/2, lat \<plusminus> lat_res/2)\<close>; the ring is closed, does not
  intersect itself, has its centroid at the sample's \<open>(lon, lat)\<close>, and the feature
  carries the sample's humidity and timestamp. Coordinates are exact reals here, so the
  centroid is equal to the sample point, not merely close to it.
\<close>

theorem polygonizer_one_cell_per_land_sample:
  assumes "read_csv csv_file w = Inr df"
      and "df_land = filter (\<lambda>r. is_land (lat r) (lon r)) df"
      and "df_land \<noteq> []"
      and "emitting = filter (\<lambda>r. RH2M r \<noteq> None) df_land"
  shows "\<exists>features w'.
           csv_to_geojson is_land csv_file out w = (True, w') \<and>
           files w' out = Some (GeoJson features) \<and>
           length features = length emitting \<and>
           (\<forall>i<length emitting. \<exists>ring.
              coordinates (features ! i) = [ring] \<and>
              ring = rect (lon (emitting ! i)) (lat (emitting ! i))
                       (lon_res_of df_land / 2) (lat_res_of df_land / 2) \<and>
              length ring = 5 \<and> closed_ring ring \<and> simple_ring ring \<and>
              centroid ring = (lon (emitting ! i), lat (emitting ! i)) \<and>
              RH2M (emitting ! i) = Some (prop_humidity (features ! i)) \<and>
              prop_time (features ! i) = time (emitting ! i))"
proof -
  define lr where "lr = lat_res_of df_land"
  define lo where "lo = lon_res_of df_land"
  define features where
    "features = map (\<lambda>r. make_feature lr lo r (the (RH2M r))) emitting"
  obtain ok w' where r: "csv_to_geojson is_land csv_file out w = (ok, w')"
    by (cases "csv_to_geojson is_land csv_file out w")
  from csv_to_geojson_land[OF assms(1-3), of out] r
  have ok: "ok = True" and fs: "files w' out = Some (GeoJson features)"
    by (simp_all add: features_loop_eq features_def lr_def lo_def assms(4))
  have pos: "0 < lo / 2" "0 < lr / 2"
    using lat_res_pos[of df_land] lon_res_pos[of df_land] by (simp_all add: lr_def lo_def)
  have cell: "\<exists>ring.
              coordinates (features ! i) = [ring] \<and>
              ring = rect (lon (emitting ! i)) (lat (emitting ! i)) (lo / 2) (lr / 2) \<and>
              length ring = 5 \<and> closed_ring ring \<and> simple_ring ring \<and>
              centroid ring = (lon (emitting ! i), lat (emitting ! i)) \<and>
              RH2M (emitting ! i) = Some (prop_humidity (features ! i)) \<and>
              prop_time (features ! i) = time (emitting ! i)" if i: "i < length emitting" for i
  proof -
    let ?r = "emitting ! i"
    let ?ring = "rect (lon ?r) (lat ?r) (lo / 2) (lr / 2)"
    from i have "?r \<in> set emitting" by simp
    then have "RH2M ?r \<noteq> None" by (simp add: assms(4))
    then obtain h where h: "RH2M ?r = Some h" by auto
    from i have f: "features ! i = make_feature lr lo ?r h"
      by (simp add: features_def h)
    have "coordinates (features ! i) = [?ring]"
      by (simp add: f rect_of_make_feature)
    moreover have "length ?ring = 5" "closed_ring ?ring"
      by (simp_all add: rect_def closed_ring_def)
    moreover have "simple_ring ?ring" using pos by (rule simple_rect)
    moreover have "centroid ?ring = (lon ?r, lat ?r)" using pos by (rule centroid_rect)
    moreover have "RH2M ?r = Some (prop_humidity (features ! i))"
      "prop_time (features ! i) = time ?r"
      by (simp_all add: f h make_feature_def Let_def)
    ultimately show ?thesis by blast
  qed
  have "length features = length emitting" by (simp add: features_def)
  with r ok fs cell show ?thesis
    unfolding lr_def lo_def by blast
qed

theorem polygonizer_one_cell_per_land_sample_witness:
  "read_csv ''m.csv'' example_world = Inr example_rows \<and>
   filter (\<lambda>r. example_land (lat r) (lon r)) example_rows \<noteq> [] \<and>
   (\<exists>features w'.
      csv_to_geojson example_land ''m.csv'' ''m.geojson'' example_world = (True, w') \<and>
      files w' ''m.geojson'' = Some (GeoJson features) \<and>
      length features = 1 \<and>
      coordinates (features ! 0) = [[(19, 19 / 2), (21, 19 / 2), (21, 21 / 2), (19, 21 / 2), (19, 19 / 2)]] \<and>
      centroid (hd (coordinates (features ! 0))) = (20, 10) \<and>
      prop_humidity (features ! 0) = 75)"
proof -
  let ?land = "[\<lparr>time = example_time, lat = 10, lon = 20, RH2M = Some 75\<rparr>,
      \<lparr>time = example_time, lat = 11, lon = 22, RH2M = None\<rparr>]"
  let ?emit = "[\<lparr>time = example_time, lat = 10, lon = 20, RH2M = Some (75::real)\<rparr>]"
  have h3: "?land \<noteq> []" by simp
  from polygonizer_one_cell_per_land_sample[OF example_read example_df_land[symmetric] h3 example_emitting[symmetric], of "''m.geojson''"]
  obtain features w' where
    r: "csv_to_geojson example_land ''m.csv'' ''m.geojson'' example_world = (True, w')"
       "files w' ''m.geojson'' = Some (GeoJson features)"
       "length features = length ?emit"
    and c: "\<forall>i<length ?emit. \<exists>ring.
              coordinates (features ! i) = [ring] \<and>
              ring = rect (lon (?emit ! i)) (lat (?emit ! i)) (lon_res_of ?land / 2) (lat_res_of ?land / 2) \<and>
              length ring = 5 \<and> closed_ring ring \<and> simple_ring ring \<and>
              centroid ring = (lon (?emit ! i), lat (?emit ! i)) \<and>
              RH2M (?emit ! i) = Some (prop_humidity (features ! i)) \<and>
              prop_time (features ! i) = time (?emit ! i)"
    by blast
  from c have "\<exists>ring.
              coordinates (features ! 0) = [ring] \<and>
              ring = rect (lon (?emit ! 0)) (lat (?emit ! 0)) (lon_res_of ?land / 2) (lat_res_of ?land / 2) \<and>
              length ring = 5 \<and> closed_ring ring \<and> simple_ring ring \<and>
              centroid ring = (lon (?emit ! 0), lat (?emit ! 0)) \<and>
              RH2M (?emit ! 0) = Some (prop_humidity (features ! 0)) \<and>
              prop_time (features ! 0) = time (?emit ! 0)"
    by simp
  then have "coordinates (features ! 0) = [[(19, 19 / 2), (21, 19 / 2), (21, 21 / 2), (19, 21 / 2), (19, 19 / 2)]]"
    "centroid (hd (coordinates (features ! 0))) = (20, 10)"
    "prop_humidity (features ! 0) = 75"
    by (auto simp: example_res rect_def)
  with r show ?thesis
    by (simp add: example_read example_df_land)
qed

text \<open>
  Claim C2. The latitude spacing computed from the land rows is the absolute difference
  of the two smallest distinct latitudes when there are at least two, and 0.5 otherwise;
  the longitude spacing is computed the same way from the longitudes, with default
  0.625; and every cell of the document written for the table is the rectangle built
  from this one pair.
\<close>

theorem grid_spacing_two_smallest:
  assumes "read_csv csv_file w = Inr df"
      and "df_land = filter (\<lambda>r. is_land (lat r) (lon r)) df"
      and "df_land \<noteq> []"
  shows "lat_res_of df_land = spacing_spec 0.5 (lat ` set df_land) \<and>
         lon_res_of df_land = spacing_spec 0.625 (lon ` set df_land) \<and>
         (\<exists>features. files (snd (csv_to_geojson is_land csv_file out w)) out = Some (GeoJson features) \<and>
           (\<forall>f\<in>set features. coordinates f =
              [rect (prop_lon f) (prop_lat f) (lon_res_of df_land / 2) (lat_res_of df_land / 2)]))"
proof -
  have "lat_res_of df_land = spacing_spec 0.5 (lat ` set df_land)"
    by (simp add: lat_res_of_def resolution_spec)
  moreover have "lon_res_of df_land = spacing_spec 0.625 (lon ` set df_land)"
    by (simp add: lon_res_of_def resolution_spec)
  moreover
  let ?fs = "features_loop (lat_res_of df_land) (lon_res_of df_land) df_land []"
  have "\<forall>f\<in>set ?fs. coordinates f =
              [rect (prop_lon f) (prop_lat f) (lon_res_of df_land / 2) (lat_res_of df_land / 2)]"
    by (auto simp: features_loop_eq make_feature_def rect_def Let_def)
  with csv_to_geojson_land(2)[OF assms, of out]
  have "\<exists>features. files (snd (csv_to_geojson is_land csv_file out w)) out = Some (GeoJson features) \<and>
           (\<forall>f\<in>set features. coordinates f =
              [rect (prop_lon f) (prop_lat f) (lon_res_of df_land / 2) (lat_res_of df_land / 2)])"
    by simp
  ultimately show ?thesis by blast
qed

theorem grid_spacing_two_smallest_witness:
  "read_csv ''m.csv'' example_world = Inr example_rows \<and>
   filter (\<lambda>r. example_land (lat r) (lon r)) example_rows \<noteq> [] \<and>
   lat_res_of (filter (\<lambda>r. example_land (lat r) (lon r)) example_rows) = spacing_spec 0.5 {10, 11} \<and>
   lon_res_of (filter (\<lambda>r. example_land (lat r) (lon r)) example_rows) = spacing_spec 0.625 {20, 22} \<and>
   (\<exists>features.
      files (snd (csv_to_geojson example_land ''m.csv'' ''m.geojson'' example_world)) ''m.geojson'' =
        Some (GeoJson features) \<and>
      coordinates (hd features) = [rect 20 10 (2 / 2) (1 / 2)])"
proof -
  have h3: "filter (\<lambda>r. example_land (lat r) (lon r)) example_rows \<noteq> []"
    by (simp add: example_df_land)
  from grid_spacing_two_smallest[OF example_read refl h3, of "''m.geojson''"]
  show ?thesis
    unfolding example_doc
    by (simp add: example_read example_df_land example_res)
qed

text \<open>
  Claim C10. When both spacings are positive, the ring of every emitted cell runs
  south-west, south-east, north-east, north-west and back to south-west, which is
  counterclockwise: its signed area is \<open>lon_res * lat_res\<close>, a positive number.
\<close>

theorem cell_ring_counterclockwise:
  assumes "read_csv csv_file w = Inr df"
      and "df_land = filter (\<lambda>r. is_land (lat r) (lon r)) df"
      and "df_land \<noteq> []"
      and "0 < lat_res_of df_land" and "0 < lon_res_of df_land"
  shows "\<exists>features. files (snd (csv_to_geojson is_land csv_file out w)) out = Some (GeoJson features) \<and>
           (\<forall>f\<in>set features. \<exists>sw se ne nw.
              coordinates f = [[sw, se, ne, nw, sw]] \<and>
              sw = (prop_lon f - lon_res_of df_land / 2, prop_lat f - lat_res_of df_land / 2) \<and>
              se = (prop_lon f + lon_res_of df_land / 2, prop_lat f - lat_res_of df_land / 2) \<and>
              ne = (prop_lon f + lon_res_of df_land / 2, prop_lat f + lat_res_of df_land / 2) \<and>
              nw = (prop_lon f - lon_res_of df_land / 2, prop_lat f + lat_res_of df_land / 2) \<and>
              fst sw < fst se \<and> snd se < snd ne \<and>
              signed_area [sw, se, ne, nw, sw] = lon_res_of df_land * lat_res_of df_land \<and>
              0 < signed_area [sw, se, ne, nw, sw])"
proof -
  let ?lr = "lat_res_of df_land" and ?lo = "lon_res_of df_land"
  let ?fs = "features_loop ?lr ?lo df_land []"
  have area: "signed_area (rect x y (?lo / 2) (?lr / 2)) = ?lo * ?lr" for x y
    by (simp add: signed_area_rect)
  have "\<exists>sw se ne nw.
              coordinates f = [[sw, se, ne, nw, sw]] \<and>
              sw = (prop_lon f - ?lo / 2, prop_lat f - ?lr / 2) \<and>
              se = (prop_lon f + ?lo / 2, prop_lat f - ?lr / 2) \<and>
              ne = (prop_lon f + ?lo / 2, prop_lat f + ?lr / 2) \<and>
              nw = (prop_lon f - ?lo / 2, prop_lat f + ?lr / 2) \<and>
              fst sw < fst se \<and> snd se < snd ne \<and>
              signed_area [sw, se, ne, nw, sw] = ?lo * ?lr \<and>
              0 < signed_area [sw, se, ne, nw, sw]" if "f \<in> set ?fs" for f
  proof -
    from that obtain r h where f: "f = make_feature ?lr ?lo r h"
      by (auto simp: features_loop_eq)
    have c: "coordinates f = [rect (prop_lon f) (prop_lat f) (?lo / 2) (?lr / 2)]"
      by (simp add: f make_feature_def rect_def Let_def)
    from assms(4,5) have "0 < ?lo * ?lr" by simp
    with c area[of "prop_lon f" "prop_lat f"] assms(4,5) show ?thesis
      by (simp add: rect_def)
  qed
  with csv_to_geojson_land(2)[OF assms(1-3), of out] show ?thesis
    by simp
qed

theorem cell_ring_counterclockwise_witness:
  "read_csv ''m.csv'' example_world = Inr example_rows \<and>
   0 < lat_res_of (filter (\<lambda>r. example_land (lat r) (lon r)) example_rows) \<and>
   0 < lon_res_of (filter (\<lambda>r. example_land (lat r) (lon r)) example_rows) \<and>
   signed_area [(19, 19 / 2), (21, 19 / 2), (21, 21 / 2), (19, 21 / 2), (19, 19 / 2)] = 2 * 1"
proof -
  have h3: "filter (\<lambda>r. example_land (lat r) (lon r)) example_rows \<noteq> []"
    and h4: "0 < lat_res_of (filter (\<lambda>r. example_land (lat r) (lon r)) example_rows)"
    and h5: "0 < lon_res_of (filter (\<lambda>r. example_land (lat r) (lon r)) example_rows)"
    by (simp_all add: example_df_land example_res)
  from cell_ring_counterclockwise[OF example_read refl h3 h4 h5, of "''m.geojson''"]
  show ?thesis
    unfolding example_doc
    by (simp add: example_read example_df_land example_res)
qed

subsection \<open>The fetch stage\<close>

lemma time_filter_in_range: "valid_timestamp t \<Longrightarrow> time_filter t = in_range t"
  by (auto simp: time_filter_def in_range_def valid_timestamp_def Let_def less_eq_prod_def)

lemma set_to_dataframe:
  "set (to_dataframe ds ts) =
     {\<lparr>time = t, lat = la, lon = lo, RH2M = ds_RH2M ds t la lo\<rparr> | t la lo.
        t \<in> set ts \<and> la \<in> set (ds_lat ds) \<and> lo \<in> set (ds_lon ds)}"
  by (auto simp: to_dataframe_def)

lemma download_Some:
  assumes "download_humidity_data remote w = (Some df, w')"
  obtains ds where "remote = Inr ds"
    and "filter time_filter (ds_time ds) \<noteq> []"
    and "df = dropna (to_dataframe ds (filter time_filter (ds_time ds)))"
    and "files w' = (files w)(path_join OUTPUT_DIR (VARIABLE @ ''_monthly_2022_2025.csv'') \<mapsto> Csv df)"
  using assms
  by (auto simp: download_humidity_data_def Let_def print_def write_file_def
           split: sum.splits if_splits)

lemma download_rows:
  assumes "download_humidity_data remote w = (Some df, w')"
      and "remote = Inr ds"
      and "\<forall>t\<in>set (ds_time ds). valid_timestamp t"
  shows "(\<forall>r\<in>set df. in_range (time r) \<and> RH2M r \<noteq> None) \<and>
         (\<forall>t\<in>set (ds_time ds).
            (\<exists>r\<in>set df. time r = t) \<longleftrightarrow>
            in_range t \<and> (\<exists>la\<in>set (ds_lat ds). \<exists>lo\<in>set (ds_lon ds). ds_RH2M ds t la lo \<noteq> None)) \<and>
         files w' (path_join OUTPUT_DIR (VARIABLE @ ''_monthly_2022_2025.csv'')) = Some (Csv df)"
proof -
  from assms(1,2) have df: "df = dropna (to_dataframe ds (filter time_filter (ds_time ds)))"
    and fs: "files w' = (files w)(path_join OUTPUT_DIR (VARIABLE @ ''_monthly_2022_2025.csv'') \<mapsto> Csv df)"
    by (auto elim!: download_Some)
  have tf: "t \<in> set (ds_time ds) \<Longrightarrow> time_filter t = in_range t" for t
    using assms(3) by (simp add: time_filter_in_range)
  have a: "\<forall>r\<in>set df. in_range (time r) \<and> RH2M r \<noteq> None"
    using tf by (auto simp: df dropna_def set_to_dataframe)
  have b: "(\<exists>r\<in>set df. time r = t) \<longleftrightarrow>
            in_range t \<and> (\<exists>la\<in>set (ds_lat ds). \<exists>lo\<in>set (ds_lon ds). ds_RH2M ds t la lo \<noteq> None)"
    if "t \<in> set (ds_time ds)" for t
  proof
    assume "\<exists>r\<in>set df. time r = t"
    then show "in_range t \<and> (\<exists>la\<in>set (ds_lat ds). \<exists>lo\<in>set (ds_lon ds). ds_RH2M ds t la lo \<noteq> None)"
      using tf by (fastforce simp: df dropna_def set_to_dataframe)
  next
    assume r: "in_range t \<and> (\<exists>la\<in>set (ds_lat ds). \<exists>lo\<in>set (ds_lon ds). ds_RH2M ds t la lo \<noteq> None)"
    then obtain la lo where l: "la \<in> set (ds_lat ds)" "lo \<in> set (ds_lon ds)" "ds_RH2M ds t la lo \<noteq> None"
      by blast
    let ?r = "\<lparr>time = t, lat = la, lon = lo, RH2M = ds_RH2M ds t la lo\<rparr>"
    from that r tf have "t \<in> set (filter time_filter (ds_time ds))" by simp
    with l have "?r \<in> set (to_dataframe ds (filter time_filter (ds_time ds)))"
      unfolding set_to_dataframe by blast
    with l have "?r \<in> set df"
      by (simp add: df dropna_def)
    then show "\<exists>r\<in>set df. time r = t" by (intro bexI[of _ ?r]) simp_all
  qed
  from a b fs show ?thesis by simp
qed

lemma download_None:
  assumes "remote = Inl e \<or> (\<exists>ds. remote = Inr ds \<and> filter time_filter (ds_time ds) = [])"
  shows "fst (download_humidity_data remote w) = None"
    and "files (snd (download_humidity_data remote w)) = files w"
    and "dirs (snd (download_humidity_data remote w)) = dirs w"
    and "spawned (snd (download_humidity_data remote w)) = spawned w"
    and "console (snd (download_humidity_data remote w)) = console w @
           (case remote of
              Inl e \<Rightarrow> [Step1Header, OpeningStore, ErrorDownloading e, Traceback]
            | Inr ds \<Rightarrow> [Step1Header, OpeningStore, StoreOpened, FilteringTime,
                ErrorDownloading (ValueError ''No matching data found for specified date range''),
                Traceback])"
  using assms
  by (auto simp: download_humidity_data_def Let_def print_def)

text \<open>
  Claim C6. If the remote store cannot be opened, or no timestamp of the store passes the
  time filter, the fetch stage fails: \<open>download_humidity_data\<close> returns \<open>None\<close> (the
  failure the specification calls DataSourceError; the source logs the exception and
  returns \<open>None\<close>). The driver then stops right after stage 1: the console shows the
  start of the pipeline, the events of the failed download and the failure message and
  nothing of a later stage, no child process is spawned, and no file is created. Run
  from the entry point, the only change on disk is the two output directories made by
  the constructor.
\<close>

theorem fetch_failure_aborts_pipeline:
  assumes "remote = Inl e \<or> (\<exists>ds. remote = Inr ds \<and> filter time_filter (ds_time ds) = [])"
  shows "fst (download_humidity_data remote w) = None \<and>
         files (run_complete_pipeline remote is_land t w) = files w \<and>
         dirs (run_complete_pipeline remote is_land t w) = dirs w \<and>
         spawned (run_complete_pipeline remote is_land t w) = spawned w \<and>
         console (run_complete_pipeline remote is_land t w) = console w @ [PipelineStart] @
           (case remote of
              Inl e \<Rightarrow> [Step1Header, OpeningStore, ErrorDownloading e, Traceback]
            | Inr ds \<Rightarrow> [Step1Header, OpeningStore, StoreOpened, FilteringTime,
                ErrorDownloading (ValueError ''No matching data found for specified date range''),
                Traceback]) @ [PipelineFailed] \<and>
         files (main remote is_land t w) = files w \<and>
         dirs (main remote is_land t w) = dirs (init w)"
proof -
  have run: "run_complete_pipeline remote is_land t w' =
               print [PipelineFailed] (snd (download_humidity_data remote (print [PipelineStart] w')))" for w'
    using download_None(1)[OF assms, of "print [PipelineStart] w'"]
    by (cases "download_humidity_data remote (print [PipelineStart] w')")
       (simp add: run_complete_pipeline_def Let_def)
  have init_files: "files (init w) = files w"
    by (simp add: init_def print_def makedirs_def)
  show ?thesis
    unfolding main_def run
    using download_None[OF assms]
    by (simp add: print_def init_files)
qed

theorem fetch_failure_aborts_pipeline_witness:
  "fst (download_humidity_data (Inr old_store) empty_world) = None \<and>
   files (run_complete_pipeline (Inr old_store) example_land absent_tool empty_world) = Map.empty \<and>
   spawned (run_complete_pipeline (Inr old_store) example_land absent_tool empty_world) = [] \<and>
   console (run_complete_pipeline (Inr old_store) example_land absent_tool empty_world) =
     [PipelineStart, Step1Header, OpeningStore, StoreOpened, FilteringTime,
      ErrorDownloading (ValueError ''No matching data found for specified date range''),
      Traceback, PipelineFailed] \<and>
   dirs (main (Inr old_store) example_land absent_tool empty_world) = [OUTPUT_DIR, MBTILES_DIR]"
proof -
  have h: "Inr old_store = Inl (OtherError []) \<or>
           (\<exists>ds. (Inr old_store :: exn + dataset) = Inr ds \<and> filter time_filter (ds_time ds) = [])"
    by (simp add: old_store_def time_filter_def)
  have d: "dirs (init empty_world) = [OUTPUT_DIR, MBTILES_DIR]"
    by (simp add: init_def print_def makedirs_def empty_world_def OUTPUT_DIR_def MBTILES_DIR_def)
  from fetch_failure_aborts_pipeline[OF h, of empty_world example_land absent_tool] show ?thesis
    by (simp add: empty_world_def d[unfolded empty_world_def])
qed

text \<open>
  Claim C8, as stated, fails: a timestamp inside the range has no row in the output when
  every value of the store at that timestamp is missing, because the rows with a missing
  value are dropped. The store of the counterexample has the single timestamp January
  2022 and one grid point without a value; the fetch succeeds with an empty table.
\<close>

theorem fetch_row_iff_in_range_counterexample:
  "fst (download_humidity_data (Inr nan_store) empty_world) = Some [] \<and>
   \<lparr>year = 2022, month = 1, day_time = 0\<rparr> \<in> set (ds_time nan_store) \<and>
   valid_timestamp \<lparr>year = 2022, month = 1, day_time = 0\<rparr> \<and>
   in_range \<lparr>year = 2022, month = 1, day_time = 0\<rparr>"
  by (simp add: download_humidity_data_def nan_store_def Let_def time_filter_def
        to_dataframe_def dropna_def in_range_def valid_timestamp_def less_eq_prod_def)

text \<open>
  Claim C8, amended. When the store opens and some timestamp passes the filter, the fetch
  stage returns a table in which every row has a timestamp inside the range January 2022
  to May 2025 and a humidity value; the table has a row for a timestamp of the store
  exactly when the timestamp is inside the range and the store holds at least one value
  at it; and the table persisted as the main CSV is the returned table.
\<close>

theorem fetch_rows_in_range_with_value:
  assumes "remote = Inr ds"
      and "filter time_filter (ds_time ds) \<noteq> []"
      and "\<forall>t\<in>set (ds_time ds). valid_timestamp t"
  shows "\<exists>df w'. download_humidity_data remote w = (Some df, w') \<and>
         (\<forall>r\<in>set df. in_range (time r) \<and> RH2M r \<noteq> None) \<and>
         (\<forall>t\<in>set (ds_time ds).
            (\<exists>r\<in>set df. time r = t) \<longleftrightarrow>
            in_range t \<and> (\<exists>la\<in>set (ds_lat ds). \<exists>lo\<in>set (ds_lon ds). ds_RH2M ds t la lo \<noteq> None)) \<and>
         files w' (path_join OUTPUT_DIR (VARIABLE @ ''_monthly_2022_2025.csv'')) = Some (Csv df)"
proof -
  from assms(1,2) obtain df w' where d: "download_humidity_data remote w = (Some df, w')"
    by (simp add: download_humidity_data_def Let_def)
  from download_rows[OF d assms(1,3)] d show ?thesis by blast
qed

theorem fetch_rows_in_range_with_value_witness:
  "\<exists>df w'. download_humidity_data (Inr example_store) empty_world = (Some df, w') \<and>
      df = [\<lparr>time = \<lparr>year = 2022, month = 1, day_time = 0\<rparr>, lat = 10, lon = 20, RH2M = Some 75\<rparr>] \<and>
      files w' (path_join OUTPUT_DIR (VARIABLE @ ''_monthly_2022_2025.csv'')) = Some (Csv df)"
proof -
  have h2: "filter time_filter (ds_time example_store) \<noteq> []"
    and h3: "\<forall>t\<in>set (ds_time example_store). valid_timestamp t"
    by (simp_all add: example_store_def time_filter_def valid_timestamp_def)
  have e: "fst (download_humidity_data (Inr example_store) empty_world) =
        Some [\<lparr>time = \<lparr>year = 2022, month = 1, day_time = 0\<rparr>, lat = 10, lon = 20, RH2M = Some 75\<rparr>]"
    by (simp add: download_humidity_data_def example_store_def time_filter_def Let_def
          to_dataframe_def dropna_def)
  from fetch_rows_in_range_with_value[OF refl h2 h3, of empty_world] e show ?thesis
    by auto
qed

subsection \<open>The tile builder\<close>

lemma g2m_spawned:
  "spawned (snd (geojson_to_mbtiles_tippecanoe t g out w)) = spawned w @ [tippecanoe_cmd g out]"
  by (simp add: geojson_to_mbtiles_tippecanoe_def subprocess_run_def Let_def print_def
        split: sum.splits prod.splits)

lemma g2m_ok:
  "fst (geojson_to_mbtiles_tippecanoe t g out w) \<longleftrightarrow>
     (\<exists>result disk. t (tippecanoe_cmd g out) (files w) = Inr (result, disk) \<and> returncode result = 0)"
  by (auto simp: geojson_to_mbtiles_tippecanoe_def subprocess_run_def Let_def
        split: sum.splits prod.splits)

lemma g2m_failed:
  assumes "t (tippecanoe_cmd g out) (files w) = Inr (result, disk)" "returncode result \<noteq> 0"
  shows "geojson_to_mbtiles_tippecanoe t g out w =
           (False, print [TippecanoeFailed (stderr result)]
                     (w\<lparr>spawned := spawned w @ [tippecanoe_cmd g out], files := disk\<rparr>))"
  using assms
  by (simp add: geojson_to_mbtiles_tippecanoe_def subprocess_run_def Let_def)

lemma mbtiles_loop_spawned:
  "spawned (snd (mbtiles_loop t gs acc w)) =
     spawned w @ map (\<lambda>g. tippecanoe_cmd g (mbtiles_path g)) gs"
proof (induction gs arbitrary: acc w)
  case Nil
  then show ?case by simp
next
  case (Cons g gs)
  obtain ok w' where r: "geojson_to_mbtiles_tippecanoe t g (mbtiles_path g) w = (ok, w')"
    by (cases "geojson_to_mbtiles_tippecanoe t g (mbtiles_path g) w")
  from g2m_spawned[of t g "mbtiles_path g" w] r
  have s: "spawned w' = spawned w @ [tippecanoe_cmd g (mbtiles_path g)]" by simp
  show ?case
    by (simp add: r Let_def Cons.IH s print_def)
qed

lemma create_mbtiles_spawned:
  "spawned (snd (create_mbtiles t gs w)) =
     spawned w @ map (\<lambda>g. tippecanoe_cmd g (mbtiles_path g)) gs"
proof -
  obtain ms w2 where r: "mbtiles_loop t gs [] (print [Step4Header] w) = (ms, w2)"
    by (cases "mbtiles_loop t gs [] (print [Step4Header] w)")
  from mbtiles_loop_spawned[of t gs "[]" "print [Step4Header] w"] r
  show ?thesis
    by (simp add: create_mbtiles_def Let_def print_def)
qed

lemma mbtiles_loop_failed_step:
  assumes "\<not> fst (geojson_to_mbtiles_tippecanoe t g (mbtiles_path g) w)"
  shows "mbtiles_loop t (g # rest) acc w =
           mbtiles_loop t rest acc
             (print [FailedOne (replace ''_land.geojson'' '''' (basename g))]
                (snd (geojson_to_mbtiles_tippecanoe t g (mbtiles_path g) w)))"
  using assms
  by (cases "geojson_to_mbtiles_tippecanoe t g (mbtiles_path g) w") (simp add: Let_def)

lemma flaky_bad:
  "flaky_tool (tippecanoe_cmd ''bad.geojson'' out) disk =
     Inr (\<lparr>returncode = 1, proc_stdout = '''', stderr = ''cannot parse''\<rparr>, disk)"
  by (simp add: flaky_tool_def tippecanoe_cmd_def)

text \<open>
  Claim C5. \<open>geojson_to_mbtiles_tippecanoe\<close> starts exactly one child process, with the
  argument vector \<open>tippecanoe -o <dest> -z 10 -Z 0 --no-feature-limit --no-tile-size-limit
  -B0 --drop-densest-as-needed --extend-zooms-if-still-dropping --force <geometry-file>\<close>.
  It reports success exactly when the tool ran and exited with status zero. On a
  non-zero exit it reports failure and prints the tool's standard error. In the batch
  of \<open>create_mbtiles\<close> a failed document leaves the list of archives as it was and the loop
  goes on with the remaining documents: the tool is started once for every document of
  the batch, in order, whatever the outcome of the earlier ones.
\<close>

theorem tile_builder_contract:
  "spawned (snd (geojson_to_mbtiles_tippecanoe t g out w)) =
     spawned w @ [[''tippecanoe'', ''-o'', out, ''-z'', ''10'', ''-Z'', ''0'',
       ''--no-feature-limit'', ''--no-tile-size-limit'', ''-B0'', ''--drop-densest-as-needed'',
       ''--extend-zooms-if-still-dropping'', ''--force'', g]] \<and>
   (fst (geojson_to_mbtiles_tippecanoe t g out w) \<longleftrightarrow>
      (\<exists>result disk. t (tippecanoe_cmd g out) (files w) = Inr (result, disk) \<and> returncode result = 0)) \<and>
   (\<forall>result disk. t (tippecanoe_cmd g out) (files w) = Inr (result, disk) \<and> returncode result \<noteq> 0 \<longrightarrow>
      \<not> fst (geojson_to_mbtiles_tippecanoe t g out w) \<and>
      console (snd (geojson_to_mbtiles_tippecanoe t g out w)) =
        console w @ [TippecanoeFailed (stderr result)]) \<and>
   (\<not> fst (geojson_to_mbtiles_tippecanoe t g (mbtiles_path g) w) \<longrightarrow>
      mbtiles_loop t (g # rest) acc w =
        mbtiles_loop t rest acc
          (print [FailedOne (replace ''_land.geojson'' '''' (basename g))]
             (snd (geojson_to_mbtiles_tippecanoe t g (mbtiles_path g) w)))) \<and>
   spawned (snd (create_mbtiles t gs w)) =
     spawned w @ map (\<lambda>g. tippecanoe_cmd g (mbtiles_path g)) gs"
proof -
  have "spawned (snd (geojson_to_mbtiles_tippecanoe t g out w)) =
     spawned w @ [[''tippecanoe'', ''-o'', out, ''-z'', ''10'', ''-Z'', ''0'',
       ''--no-feature-limit'', ''--no-tile-size-limit'', ''-B0'', ''--drop-densest-as-needed'',
       ''--extend-zooms-if-still-dropping'', ''--force'', g]]"
    unfolding g2m_spawned by (simp add: tippecanoe_cmd_def)
  moreover have "\<not> fst (geojson_to_mbtiles_tippecanoe t g out w) \<and>
      console (snd (geojson_to_mbtiles_tippecanoe t g out w)) =
        console w @ [TippecanoeFailed (stderr result)]"
    if "t (tippecanoe_cmd g out) (files w) = Inr (result, disk) \<and> returncode result \<noteq> 0"
    for result disk
    using g2m_failed[of t g out w result disk] that by (simp add: print_def)
  ultimately show ?thesis
    using g2m_ok[of t g out w] mbtiles_loop_failed_step[of t g w rest acc]
      create_mbtiles_spawned[of t gs w]
    by blast
qed

theorem tile_builder_contract_witness:
  "flaky_tool (tippecanoe_cmd ''bad.geojson'' ''bad.mbtiles'') (files empty_world) =
     Inr (\<lparr>returncode = 1, proc_stdout = '''', stderr = ''cannot parse''\<rparr>, files empty_world) \<and>
   fst (geojson_to_mbtiles_tippecanoe flaky_tool ''bad.geojson'' ''bad.mbtiles'' empty_world) = False \<and>
   console (snd (geojson_to_mbtiles_tippecanoe flaky_tool ''bad.geojson'' ''bad.mbtiles'' empty_world)) =
     [TippecanoeFailed ''cannot parse''] \<and>
   spawned (snd (create_mbtiles flaky_tool [''bad.geojson'', ''ok.geojson''] empty_world)) =
     [tippecanoe_cmd ''bad.geojson'' (mbtiles_path ''bad.geojson''),
      tippecanoe_cmd ''ok.geojson'' (mbtiles_path ''ok.geojson'')]"
proof -
  have c: "console empty_world = []" "spawned empty_world = []"
    by (simp_all add: empty_world_def)
  from tile_builder_contract[of flaky_tool "''bad.geojson''" "''bad.mbtiles''" empty_world
      "[]" "[]" "[''bad.geojson'', ''ok.geojson'']"]
  show ?thesis
    unfolding flaky_bad c by simp
qed

end
